theory Spec2Isabelle
  imports Complex_Main "HOL-Library.Signed_Division"
begin

section \<open>Go values used by dns-bench\<close>

text \<open>
  The program is one Go file, \<^verbatim>\<open>main.go\<close>. Its data are modelled as follows.

  \<^item> \<^verbatim>\<open>int\<close> and \<^verbatim>\<open>time.Duration\<close> (an \<^verbatim>\<open>int64\<close> of nanoseconds) are
    HOL integers. The program does no integer arithmetic that can leave the 64-bit range:
    a counter is bounded by the length of a slice.
  \<^item> A finite \<^verbatim>\<open>float64\<close> is the real number it denotes. Every operation computes the
    exact real result and then rounds it; the rounding function belongs to the floating-point
    unit, not to the program, and is a parameter of the model (field \<open>rnd\<close> of a
    \<open>platform\<close>). NaN, infinities and results beyond the largest finite \<^verbatim>\<open>float64\<close>
    are outside the model.
  \<^item> A conversion of a \<^verbatim>\<open>float64\<close> to an integer truncates towards zero; where the
    value does not fit 64 bits the Go specification leaves the result to the
    implementation, so that result is a parameter too (field \<open>conv_oor\<close>).
  \<^item> A run-time panic is a value: a function that may index a slice returns
    \<open>panic + 'a\<close>.
  \<^item> A Go string is its sequence of bytes, a HOL \<open>string\<close>.
\<close>

type_synonym float64 = real
type_synonym duration = int

record platform =
  rnd :: "real \<Rightarrow> float64"
  conv_oor :: "float64 \<Rightarrow> int"

definition fadd :: "platform \<Rightarrow> float64 \<Rightarrow> float64 \<Rightarrow> float64" where
  "fadd pf x y = rnd pf (x + y)"

definition fsub :: "platform \<Rightarrow> float64 \<Rightarrow> float64 \<Rightarrow> float64" where
  "fsub pf x y = rnd pf (x - y)"

definition fmul :: "platform \<Rightarrow> float64 \<Rightarrow> float64 \<Rightarrow> float64" where
  "fmul pf x y = rnd pf (x * y)"

text \<open>Division; the program only divides by non-zero values (a constant, or a count
  that is positive where the division stands).\<close>

definition fdiv :: "platform \<Rightarrow> float64 \<Rightarrow> float64 \<Rightarrow> float64" where
  "fdiv pf x y = rnd pf (x / y)"

text \<open>\<^verbatim>\<open>float64(k)\<close> for an integer \<open>k\<close>.\<close>

definition float64_of_int :: "platform \<Rightarrow> int \<Rightarrow> float64" where
  "float64_of_int pf k = rnd pf (of_int k)"

text \<open>\<^verbatim>\<open>math.Floor\<close> and \<^verbatim>\<open>math.Ceil\<close> return a \<^verbatim>\<open>float64\<close>; the result is
  an integer of no more significant bits than the argument, so no rounding occurs.\<close>

definition Floor :: "float64 \<Rightarrow> float64" where
  "Floor x = of_int \<lfloor>x\<rfloor>"

definition Ceil :: "float64 \<Rightarrow> float64" where
  "Ceil x = of_int \<lceil>x\<rceil>"

definition MaxInt64 :: int where
  "MaxInt64 = 2 ^ 63 - 1"

definition MinInt64 :: int where
  "MinInt64 = - (2 ^ 63)"

definition trunc :: "real \<Rightarrow> int" where
  "trunc x = (if 0 \<le> x then \<lfloor>x\<rfloor> else \<lceil>x\<rceil>)"

text \<open>\<^verbatim>\<open>int(x)\<close>, \<^verbatim>\<open>time.Duration(x)\<close> for a \<^verbatim>\<open>float64\<close> \<open>x\<close>.\<close>

definition int_of_float64 :: "platform \<Rightarrow> float64 \<Rightarrow> int" where
  "int_of_float64 pf x =
     (if MinInt64 \<le> trunc x \<and> trunc x \<le> MaxInt64 then trunc x else conv_oor pf x)"

datatype panic = IndexOutOfRange | MakesliceCapOutOfRange

text \<open>\<^verbatim>\<open>xs[i]\<close>: Go checks the bounds and panics outside them.\<close>

definition index :: "'a list \<Rightarrow> int \<Rightarrow> panic + 'a" where
  "index xs i = (if 0 \<le> i \<and> i < int (length xs) then Inr (xs ! nat i) else Inl IndexOutOfRange)"

text \<open>An \<^verbatim>\<open>error\<close> value: what its \<^verbatim>\<open>Error()\<close> method returns, and a tag that
  tells apart two error values of the same message. A nil error is \<open>None\<close>.\<close>

datatype error = MkError (Error: string) (ident: nat)

record Sample =
  Duration :: duration
  Err :: "error option"

record Stats =
  Count :: int
  Successes :: int
  Min_stat :: duration
  Max_stat :: duration
  Avg :: duration
  Median :: duration
  P95 :: duration
  Errors :: "error list"
  DurationsMs :: "float64 list"

text \<open>\<^verbatim>\<open>var stats Stats\<close>: every field has its zero value.\<close>

definition zero_Stats :: Stats where
  "zero_Stats = \<lparr>Count = 0, Successes = 0, Min_stat = 0, Max_stat = 0, Avg = 0, Median = 0,
     P95 = 0, Errors = [], DurationsMs = []\<rparr>"

definition Millisecond :: duration where
  "Millisecond = 1000000"

text \<open>\<^verbatim>\<open>Duration.Microseconds\<close>: integer division by 1000, truncating towards zero.\<close>

definition Microseconds :: "duration \<Rightarrow> int" where
  "Microseconds d = d sdiv 1000"

section \<open>The statistics engine\<close>

text \<open>\<^verbatim>\<open>percentile\<close>, lines 186 to 204.\<close>

definition percentile :: "platform \<Rightarrow> float64 list \<Rightarrow> float64 \<Rightarrow> panic + float64" where
  "percentile pf sorted_xs p =
     (if length sorted_xs = 0 then Inr 0
      else if p \<le> 0 then index sorted_xs 0
      else if p \<ge> 100 then index sorted_xs (int (length sorted_xs) - 1)
      else
        let pos = fmul pf (fdiv pf p 100) (float64_of_int pf (int (length sorted_xs) - 1));
            l = int_of_float64 pf (Floor pos);
            u = int_of_float64 pf (Ceil pos)
        in if l = u then index sorted_xs l
           else
             let frac = fsub pf pos (float64_of_int pf l)
             in case index sorted_xs l of
                  Inl e \<Rightarrow> Inl e
                | Inr a \<Rightarrow>
                    (case index sorted_xs u of
                       Inl e \<Rightarrow> Inl e
                     | Inr b \<Rightarrow> Inr (fadd pf (fmul pf a (fsub pf 1 frac)) (fmul pf b frac))))"

text \<open>The percentile in the words of the specification: the element at the position
  \<open>(p / 100) * (n - 1)\<close> when that is a whole number, else the two elements around it,
  weighted by the fraction; every operation is the \<^verbatim>\<open>float64\<close> one.\<close>

definition percentile_spec :: "platform \<Rightarrow> float64 list \<Rightarrow> float64 \<Rightarrow> float64" where
  "percentile_spec pf s p =
     (let n = length s in
      if p \<le> 0 then s ! 0
      else if p \<ge> 100 then s ! (n - 1)
      else
        let position = fmul pf (fdiv pf p 100) (float64_of_int pf (int n - 1));
            lo = \<lfloor>position\<rfloor>;
            hi = \<lceil>position\<rceil>
        in if lo = hi then s ! nat lo
           else
             let frac = fsub pf position (of_int lo)
             in fadd pf (fmul pf (s ! nat lo) (fsub pf 1 frac)) (fmul pf (s ! nat hi) frac))"

text \<open>The body of the first loop of \<^verbatim>\<open>summarize\<close>, lines 150 to 161.\<close>

definition summarize_step :: "platform \<Rightarrow> Stats \<Rightarrow> Sample \<Rightarrow> Stats" where
  "summarize_step pf stats s =
     (case Err s of
        None \<Rightarrow>
          let stats1 = stats\<lparr>Successes := Successes stats + 1\<rparr>;
              stats2 = (if Duration s < Min_stat stats1 then stats1\<lparr>Min_stat := Duration s\<rparr>
                        else stats1);
              stats3 = (if Duration s > Max_stat stats2 then stats2\<lparr>Max_stat := Duration s\<rparr>
                        else stats2)
          in stats3\<lparr>DurationsMs := DurationsMs stats3 @
                 [fdiv pf (float64_of_int pf (Microseconds (Duration s))) 1000]\<rparr>
      | Some e \<Rightarrow> stats\<lparr>Errors := Errors stats @ [e]\<rparr>)"

text \<open>\<^verbatim>\<open>sort.Float64s\<close> sorts in increasing order; on real numbers the result is the
  one sorted permutation, whatever the algorithm.\<close>

definition Float64s :: "float64 list \<Rightarrow> float64 list" where
  "Float64s ms = sort ms"

text \<open>\<^verbatim>\<open>summarize\<close>, lines 145 to 184. The second loop adds the durations up from the
  left, starting at zero.\<close>

definition summarize :: "platform \<Rightarrow> Sample list \<Rightarrow> panic + Stats" where
  "summarize pf samples =
     (let stats0 = zero_Stats\<lparr>Count := int (length samples), Min_stat := MaxInt64\<rparr>;
          stats = foldl (summarize_step pf) stats0 samples
      in if Successes stats = 0 then Inr (stats\<lparr>Min_stat := 0, Max_stat := 0\<rparr>)
         else
           let sum = foldl (fadd pf) 0 (DurationsMs stats);
               avgMs = fdiv pf sum (float64_of_int pf (Successes stats));
               stats4 = stats\<lparr>Avg := int_of_float64 pf (fmul pf avgMs (float64_of_int pf Millisecond))\<rparr>;
               ms = Float64s (DurationsMs stats4)
           in case percentile pf ms 50 of
                Inl e \<Rightarrow> Inl e
              | Inr m \<Rightarrow>
                  (case percentile pf ms 95 of
                     Inl e \<Rightarrow> Inl e
                   | Inr q \<Rightarrow>
                       Inr (stats4\<lparr>Median := int_of_float64 pf (fmul pf m (float64_of_int pf Millisecond)),
                                   P95 := int_of_float64 pf (fmul pf q (float64_of_int pf Millisecond))\<rparr>)))"

text \<open>What is assumed of the rounding: it is monotone, and it leaves alone every
  \<open>k / 2 ^ j\<close> with \<open>\<bar>k\<bar> \<le> 2 ^ 53\<close> and \<open>j \<le> 1022\<close>, which a \<^verbatim>\<open>float64\<close> holds
  exactly. Round-to-nearest of IEEE 754 is such a function.\<close>

definition float_rounding :: "platform \<Rightarrow> bool" where
  "float_rounding pf \<longleftrightarrow>
     (\<forall>x y. x \<le> y \<longrightarrow> rnd pf x \<le> rnd pf y) \<and>
     (\<forall>(k::int) (j::nat). \<bar>k\<bar> \<le> 2 ^ 53 \<and> j \<le> 1022 \<longrightarrow>
         rnd pf (of_int k / 2 ^ j) = of_int k / 2 ^ j)"

text \<open>The platform of exact arithmetic: nothing is rounded; an out-of-range conversion
  gives the least integer, as on amd64.\<close>

definition exact :: platform where
  "exact = \<lparr>rnd = (\<lambda>x. x), conv_oor = (\<lambda>x. MinInt64)\<rparr>"

section \<open>Reporting\<close>

text \<open>\<^verbatim>\<open>uniqueErrors\<close>, lines 304 to 317. The map \<^verbatim>\<open>seen\<close> reads \<^verbatim>\<open>false\<close> at a key
  it does not hold, so it is a function to \<open>bool\<close>; the loop carries \<^verbatim>\<open>seen\<close> and
  \<^verbatim>\<open>out\<close>.\<close>

fun uniqueErrors_loop :: "(string \<Rightarrow> bool) \<Rightarrow> error list \<Rightarrow> error option list \<Rightarrow> error list" where
  "uniqueErrors_loop seen out [] = out"
| "uniqueErrors_loop seen out (e # errs) =
     (case e of
        None \<Rightarrow> uniqueErrors_loop seen out errs
      | Some x \<Rightarrow>
          if \<not> seen (Error x) then uniqueErrors_loop (seen(Error x := True)) (out @ [x]) errs
          else uniqueErrors_loop seen out errs)"

definition uniqueErrors :: "error option list \<Rightarrow> error list" where
  "uniqueErrors errs = uniqueErrors_loop (\<lambda>k. False) [] errs"

text \<open>\<^verbatim>\<open>errorStrings\<close>, lines 319 to 325.\<close>

definition errorStrings :: "error list \<Rightarrow> string list" where
  "errorStrings errs = map Error errs"

text \<open>The messages of a list in the order of their first occurrence, each once: the
  specification's wording of the distinct errors.\<close>

fun first_occurrences :: "'a list \<Rightarrow> 'a list" where
  "first_occurrences [] = []"
| "first_occurrences (x # xs) = x # first_occurrences (filter (\<lambda>y. y \<noteq> x) xs)"

text \<open>The errors of a slice that are not nil, in order.\<close>

fun non_nil :: "'a option list \<Rightarrow> 'a list" where
  "non_nil [] = []"
| "non_nil (None # es) = non_nil es"
| "non_nil (Some x # es) = x # non_nil es"

text \<open>\<^verbatim>\<open>durFmt\<close>, lines 296 to 302. \<^verbatim>\<open>fmt.Sprintf("%.1f", ms)\<close> belongs to the
  library; it is the parameter \<open>Sprintf_1f\<close>.\<close>

definition durFmt :: "platform \<Rightarrow> (float64 \<Rightarrow> string) \<Rightarrow> duration \<Rightarrow> string" where
  "durFmt pf Sprintf_1f d =
     (if d \<le> 0 then ''--''
      else let ms = fdiv pf (float64_of_int pf (Microseconds d)) 1000
           in Sprintf_1f ms @ ''ms'')"

text \<open>From \<^verbatim>\<open>printTable\<close>: the success percentage of a row (lines 213 to 216) and its
  five duration cells (lines 219 to 223).\<close>

definition successPct :: "platform \<Rightarrow> Stats \<Rightarrow> float64" where
  "successPct pf s =
     (if Count s > 0
      then fdiv pf (fmul pf 100 (float64_of_int pf (Successes s))) (float64_of_int pf (Count s))
      else 0)"

definition duration_cells :: "platform \<Rightarrow> (float64 \<Rightarrow> string) \<Rightarrow> Stats \<Rightarrow> string list" where
  "duration_cells pf Sprintf_1f s =
     [durFmt pf Sprintf_1f (Min_stat s), durFmt pf Sprintf_1f (Avg s),
      durFmt pf Sprintf_1f (Median s), durFmt pf Sprintf_1f (P95 s),
      durFmt pf Sprintf_1f (Max_stat s)]"

section \<open>Strings\<close>

text \<open>\<^verbatim>\<open>strings.Split(s, sep)\<close> for a separator of one byte: the pieces between the
  separators, one piece more than there are separators.\<close>

fun Split :: "string \<Rightarrow> char \<Rightarrow> string list" where
  "Split [] sep = [[]]"
| "Split (c # s) sep =
     (if c = sep then [] # Split s sep
      else (case Split s sep of [] \<Rightarrow> [[c]] | p # ps \<Rightarrow> (c # p) # ps))"

text \<open>\<^verbatim>\<open>strings.SplitN(s, sep, 2)\<close> for a separator of one byte: the string itself
  when it has no separator, else what stands before and after the first one.\<close>

definition SplitN2 :: "string \<Rightarrow> char \<Rightarrow> string list" where
  "SplitN2 s sep =
     (if sep \<in> set s then [takeWhile (\<lambda>c. c \<noteq> sep) s, tl (dropWhile (\<lambda>c. c \<noteq> sep) s)]
      else [s])"

text \<open>\<^verbatim>\<open>strings.Cut(s, sep)\<close> for a separator of one byte.\<close>

definition Cut :: "string \<Rightarrow> char \<Rightarrow> string \<times> string \<times> bool" where
  "Cut s sep =
     (if sep \<in> set s then (takeWhile (\<lambda>c. c \<noteq> sep) s, tl (dropWhile (\<lambda>c. c \<noteq> sep) s), True)
      else (s, [], False))"

text \<open>The UTF-8 encodings of the code points with the Unicode property White_Space, which
  \<^verbatim>\<open>unicode.IsSpace\<close> accepts: U+0009 to U+000D, U+0020, U+0085, U+00A0, U+1680,
  U+2000 to U+200A, U+2028, U+2029, U+202F, U+205F, U+3000. None is a prefix or a suffix
  of another.\<close>

definition space_runes :: "string list" where
  "space_runes =
     [[CHR 0x09], [CHR 0x0A], [CHR 0x0B], [CHR 0x0C], [CHR 0x0D], [CHR 0x20],
      [CHR 0xC2, CHR 0x85], [CHR 0xC2, CHR 0xA0], [CHR 0xE1, CHR 0x9A, CHR 0x80],
      [CHR 0xE2, CHR 0x80, CHR 0x80], [CHR 0xE2, CHR 0x80, CHR 0x81],
      [CHR 0xE2, CHR 0x80, CHR 0x82], [CHR 0xE2, CHR 0x80, CHR 0x83],
      [CHR 0xE2, CHR 0x80, CHR 0x84], [CHR 0xE2, CHR 0x80, CHR 0x85],
      [CHR 0xE2, CHR 0x80, CHR 0x86], [CHR 0xE2, CHR 0x80, CHR 0x87],
      [CHR 0xE2, CHR 0x80, CHR 0x88], [CHR 0xE2, CHR 0x80, CHR 0x89],
      [CHR 0xE2, CHR 0x80, CHR 0x8A], [CHR 0xE2, CHR 0x80, CHR 0xA8],
      [CHR 0xE2, CHR 0x80, CHR 0xA9], [CHR 0xE2, CHR 0x80, CHR 0xAF],
      [CHR 0xE2, CHR 0x81, CHR 0x9F], [CHR 0xE3, CHR 0x80, CHR 0x80]]"

text \<open>The number of bytes of the white-space code point a string starts with or ends
  with; 0 when it starts or ends with none.\<close>

definition leading_space :: "string \<Rightarrow> nat" where
  "leading_space s =
     (case filter (\<lambda>w. take (length w) s = w) space_runes of [] \<Rightarrow> 0 | w # ws \<Rightarrow> length w)"

definition trailing_space :: "string \<Rightarrow> nat" where
  "trailing_space s =
     (case filter (\<lambda>w. drop (length s - length w) s = w) space_runes of
        [] \<Rightarrow> 0 | w # ws \<Rightarrow> length w)"

lemma filter_Cons_holds: "filter P xs = w # ws \<Longrightarrow> P w"
proof -
  assume "filter P xs = w # ws"
  then have "w \<in> set (filter P xs)" by simp
  then show "P w" by simp
qed

lemma leading_space_le: "leading_space s \<le> length s"
proof (cases "filter (\<lambda>w. take (length w) s = w) space_runes")
  case Nil
  then show ?thesis by (simp add: leading_space_def)
next
  case (Cons w ws)
  then have "take (length w) s = w" by (rule filter_Cons_holds)
  then have "length (take (length w) s) = length w" by simp
  then have "length w \<le> length s" by simp
  with Cons show ?thesis by (simp add: leading_space_def)
qed

lemma trailing_space_le: "trailing_space s \<le> length s"
proof (cases "filter (\<lambda>w. drop (length s - length w) s = w) space_runes")
  case Nil
  then show ?thesis by (simp add: trailing_space_def)
next
  case (Cons w ws)
  then have "drop (length s - length w) s = w" by (rule filter_Cons_holds)
  then have "length (drop (length s - length w) s) = length w" by simp
  then have "length w \<le> length s" by simp
  with Cons show ?thesis by (simp add: trailing_space_def)
qed

function TrimLeftSpace :: "string \<Rightarrow> string" where
  "TrimLeftSpace s =
     (if leading_space s = 0 then s else TrimLeftSpace (drop (leading_space s) s))"
  by pat_completeness auto
termination
proof (relation "measure length")
  show "wf (measure length)" by simp
next
  fix s :: string
  assume "leading_space s \<noteq> 0"
  moreover have "leading_space s \<le> length s" by (rule leading_space_le)
  ultimately show "(drop (leading_space s) s, s) \<in> measure length" by simp
qed

function TrimRightSpace :: "string \<Rightarrow> string" where
  "TrimRightSpace s =
     (if trailing_space s = 0 then s else TrimRightSpace (take (length s - trailing_space s) s))"
  by pat_completeness auto
termination
proof (relation "measure length")
  show "wf (measure length)" by simp
next
  fix s :: string
  assume "trailing_space s \<noteq> 0"
  moreover have "trailing_space s \<le> length s" by (rule trailing_space_le)
  ultimately show "(take (length s - trailing_space s) s, s) \<in> measure length" by simp
qed

declare TrimLeftSpace.simps [simp del] TrimRightSpace.simps [simp del]

text \<open>\<^verbatim>\<open>strings.TrimSpace\<close>: the white space is cut from the left, then from the right
  of what is left.\<close>

definition TrimSpace :: "string \<Rightarrow> string" where
  "TrimSpace s = TrimRightSpace (TrimLeftSpace s)"

text \<open>\<^verbatim>\<open>strings.ToLower\<close> on a string of ASCII bytes: the letters A to Z become a to z.
  Go maps letters outside ASCII by the Unicode tables, which are not modelled; the model
  leaves bytes from 0x80 on as they are, and is used on ASCII strings only.\<close>

definition ascii :: "string \<Rightarrow> bool" where
  "ascii s = list_all (\<lambda>c. (of_char c :: nat) < 128) s"

definition ToLower :: "string \<Rightarrow> string" where
  "ToLower s =
     map (\<lambda>c. case map_of (zip ''ABCDEFGHIJKLMNOPQRSTUVWXYZ'' ''abcdefghijklmnopqrstuvwxyz'') c of
                 None \<Rightarrow> c
               | Some l \<Rightarrow> l) s"

section \<open>Resolver configuration\<close>

record ResolverCfg =
  Name :: string
  Addr :: string

text \<open>The body of the loop of \<^verbatim>\<open>parseResolvers\<close>, lines 102 to 112; a
  \<^verbatim>\<open>continue\<close> leaves \<^verbatim>\<open>out\<close> as it is. \<^verbatim>\<open>SplitN\<close> returns one or two strings, so
  both \<^verbatim>\<open>kv[0]\<close> and \<^verbatim>\<open>kv[1]\<close> are in range past the test of the length.\<close>

definition parseResolvers_step :: "ResolverCfg list \<Rightarrow> string \<Rightarrow> ResolverCfg list" where
  "parseResolvers_step out p0 =
     (let p = TrimSpace p0 in
      if p = [] then out
      else
        let kv = SplitN2 p (CHR ''='') in
        if length kv \<noteq> 2 then out
        else
          let name = TrimSpace (kv ! 0);
              addr = TrimSpace (kv ! 1)
          in out @ [\<lparr>Name = name, Addr = addr\<rparr>])"

text \<open>\<^verbatim>\<open>parseResolvers\<close>, lines 98 to 115.\<close>

definition parseResolvers :: "string \<Rightarrow> ResolverCfg list" where
  "parseResolvers s = foldl parseResolvers_step [] (Split s (CHR '',''))"

text \<open>The parser in the words of the specification: split on commas, trim each segment,
  drop the empty segments, drop the segments without \<^verbatim>\<open>=\<close>, split each segment that is
  left at its first \<^verbatim>\<open>=\<close>. \<open>segments\<close> are the segments that are kept; \<open>cut_at_eq\<close>
  is the split as the specification words it, \<open>cut_at_eq_trimmed\<close> trims both halves as
  well.\<close>

definition segments :: "string \<Rightarrow> string list" where
  "segments s =
     filter (\<lambda>p. CHR ''='' \<in> set p) (filter (\<lambda>p. p \<noteq> []) (map TrimSpace (Split s (CHR '',''))))"

definition cut_at_eq :: "string \<Rightarrow> ResolverCfg" where
  "cut_at_eq p =
     \<lparr>Name = takeWhile (\<lambda>c. c \<noteq> CHR ''='') p, Addr = tl (dropWhile (\<lambda>c. c \<noteq> CHR ''='') p)\<rparr>"

definition cut_at_eq_trimmed :: "string \<Rightarrow> ResolverCfg" where
  "cut_at_eq_trimmed p =
     \<lparr>Name = TrimSpace (takeWhile (\<lambda>c. c \<noteq> CHR ''='') p),
      Addr = TrimSpace (tl (dropWhile (\<lambda>c. c \<noteq> CHR ''='') p))\<rparr>"

section \<open>The query executor\<close>

text \<open>\<^verbatim>\<open>lookup\<close>, lines 118 to 143. The resolver of the \<^verbatim>\<open>net\<close> package is the
  parameter \<open>LookupIP\<close>: it is given the host and the port the dialer connects to, the
  network (\<^verbatim>\<open>"ip4"\<close> asks for A records, \<^verbatim>\<open>"ip6"\<close> for AAAA records) and the name, and
  returns what \<^verbatim>\<open>r.LookupIP\<close> returns. The context only carries the deadline.\<close>

definition lookup :: "(string \<Rightarrow> string \<Rightarrow> string \<Rightarrow> string \<Rightarrow> 'r) \<Rightarrow> string \<Rightarrow> string \<Rightarrow> string \<Rightarrow> 'r" where
  "lookup LookupIP resolverAddr name network =
     (let (host, port) =
            (case Cut resolverAddr (CHR '':'') of
               (h, p, ok) \<Rightarrow> if \<not> ok then (resolverAddr, ''53'') else (h, p));
          nw = ToLower network
      in if nw = ''ip4'' \<or> nw = ''ipv4'' then LookupIP host port ''ip4'' name
         else if nw = ''ip6'' \<or> nw = ''ipv6'' then LookupIP host port ''ip6'' name
         else LookupIP host port ''ip4'' name)"

section \<open>The benchmark runner\<close>

record Row =
  Name_row :: string
  Stats_row :: Stats
  Samples_row :: "Sample list"

text \<open>The command line, after \<^verbatim>\<open>flag.Parse\<close>.\<close>

record Flags =
  domain :: string
  count :: int
  timeout :: duration
  network :: string
  cold :: bool
  resolversCSV :: string
  outCSV :: string

text \<open>What the program asks of the world, by the number of the query (counted from 0 over
  the whole run): the answer of the resolver, the time \<^verbatim>\<open>time.Since\<close> measures, the
  label \<^verbatim>\<open>randomLabel\<close> draws from \<^verbatim>\<open>crypto/rand\<close>; and whether writing the CSV
  file fails.\<close>

record world =
  LookupIP :: "nat \<Rightarrow> string \<Rightarrow> string \<Rightarrow> string \<Rightarrow> string \<Rightarrow> error option"
  Since :: "nat \<Rightarrow> duration"
  randomLabel :: "nat \<Rightarrow> string"
  writeCSV :: "string \<Rightarrow> Row list \<Rightarrow> error option"

text \<open>What the program does that can be observed: it prints to one of the two streams,
  and it sends a query. A text is printed as it stands; the settings line and the table of
  \<^verbatim>\<open>printTable\<close> are kept as their data.\<close>

datatype stream = Stdout | Stderr

datatype message =
    Text string
  | Settings string int duration string bool
  | Table "Row list"
  | CSVWriteError error
  | CSVWritten string
  | PanicMessage panic

datatype event = Print stream message | Query string string string

record run =
  printed :: "event list"
  exit_code :: int

text \<open>The inner loop of \<^verbatim>\<open>main\<close>, lines 70 to 82, for the resolver \<open>r\<close>, whose first
  query is query number \<open>k\<close> of the run.\<close>

definition qname_of :: "world \<Rightarrow> Flags \<Rightarrow> nat \<Rightarrow> string" where
  "qname_of w fl k = (if cold fl then randomLabel w k @ ''.'' @ domain fl else domain fl)"

definition run_queries :: "world \<Rightarrow> Flags \<Rightarrow> ResolverCfg \<Rightarrow> nat \<Rightarrow> Sample list" where
  "run_queries w fl r k =
     map (\<lambda>i. \<lparr>Duration = Since w (k + i),
               Err = lookup (LookupIP w (k + i)) (Addr r) (qname_of w fl (k + i)) (network fl)\<rparr>)
       [0..<nat (count fl)]"

definition query_events :: "world \<Rightarrow> Flags \<Rightarrow> ResolverCfg \<Rightarrow> nat \<Rightarrow> event list" where
  "query_events w fl r k =
     map (\<lambda>i. Query (Addr r) (qname_of w fl (k + i)) (network fl)) [0..<nat (count fl)]"

text \<open>The outer loop of \<^verbatim>\<open>main\<close>, lines 68 to 85: the rows, the queries sent, and the
  panic that stopped the loop, if one did. \<^verbatim>\<open>make([]Sample, 0, *count)\<close> panics when
  the capacity is negative.\<close>

fun bench :: "platform \<Rightarrow> world \<Rightarrow> Flags \<Rightarrow> ResolverCfg list \<Rightarrow> nat \<Rightarrow> Row list \<times> event list \<times> panic option" where
  "bench pf w fl [] k = ([], [], None)"
| "bench pf w fl (r # rs) k =
     (if count fl < 0 then ([], [], Some MakesliceCapOutOfRange)
      else
        let samples = run_queries w fl r k;
            evs = query_events w fl r k
        in case summarize pf samples of
             Inl e \<Rightarrow> ([], evs, Some e)
           | Inr stats \<Rightarrow>
               (case bench pf w fl rs (k + nat (count fl)) of
                  (rows, evs', pan) \<Rightarrow>
                    (\<lparr>Name_row = Name r, Stats_row = stats, Samples_row = samples\<rparr> # rows,
                     evs @ evs', pan)))"

text \<open>\<^verbatim>\<open>main\<close>, lines 45 to 96. \<^verbatim>\<open>fmt.Println\<close> and \<^verbatim>\<open>fmt.Printf\<close> print to the
  standard output, \<^verbatim>\<open>fmt.Fprintf(os.Stderr, ...)\<close> to the standard error.
  \<^verbatim>\<open>os.Exit(1)\<close> ends the program with status 1; a program that returns from
  \<^verbatim>\<open>main\<close> ends with status 0; a program that panics prints the panic to the standard
  error and ends with status 2.\<close>

definition main :: "platform \<Rightarrow> world \<Rightarrow> Flags \<Rightarrow> run" where
  "main pf w fl =
     (let resolvers = parseResolvers (resolversCSV fl) in
      if length resolvers = 0
      then \<lparr>printed = [Print Stdout (Text ''No resolvers provided.'')], exit_code = 1\<rparr>
      else
        let head = [Print Stdout (Text ''DNS Benchmark''),
                    Print Stdout (Settings (domain fl) (count fl) (timeout fl) (network fl) (cold fl)),
                    Print Stdout (Text (replicate 80 (CHR ''-'')))]
        in case bench pf w fl resolvers 0 of
             (rows, evs, Some e) \<Rightarrow>
               \<lparr>printed = head @ evs @ [Print Stderr (PanicMessage e)], exit_code = 2\<rparr>
           | (rows, evs, None) \<Rightarrow>
               let out = head @ evs @ [Print Stdout (Table rows)] in
               if outCSV fl \<noteq> []
               then (case writeCSV w (outCSV fl) rows of
                       Some e \<Rightarrow> \<lparr>printed = out @ [Print Stderr (CSVWriteError e)], exit_code = 1\<rparr>
                     | None \<Rightarrow> \<lparr>printed = out @ [Print Stdout (CSVWritten (outCSV fl))], exit_code = 0\<rparr>)
               else \<lparr>printed = out, exit_code = 0\<rparr>)"

section \<open>Rounding and conversions\<close>

lemma rnd_mono: "float_rounding pf \<Longrightarrow> x \<le> y \<Longrightarrow> rnd pf x \<le> rnd pf y"
  by (simp add: float_rounding_def)

lemma rnd_dyadic:
  "float_rounding pf \<Longrightarrow> \<bar>k\<bar> \<le> 2 ^ 53 \<Longrightarrow> j \<le> 1022 \<Longrightarrow> rnd pf (of_int k / 2 ^ j) = of_int k / 2 ^ j"
  by (simp add: float_rounding_def)

lemma rnd_of_int:
  assumes "float_rounding pf" "\<bar>k\<bar> \<le> 2 ^ 53"
  shows "rnd pf (of_int k) = of_int k"
  using rnd_dyadic [OF assms, of 0] by simp

lemma rnd_0: "float_rounding pf \<Longrightarrow> rnd pf 0 = 0"
  using rnd_of_int [of pf 0] by simp

lemma rnd_1: "float_rounding pf \<Longrightarrow> rnd pf 1 = 1"
  using rnd_of_int [of pf 1] by simp

lemma rnd_numeral:
  "float_rounding pf \<Longrightarrow> (numeral n :: int) \<le> 2 ^ 53 \<Longrightarrow> rnd pf (numeral n) = numeral n"
  using rnd_of_int [of pf "numeral n"] by simp

lemma rnd_half:
  "float_rounding pf \<Longrightarrow> (numeral n :: int) \<le> 2 ^ 53 \<Longrightarrow> rnd pf (numeral n / 2) = numeral n / 2"
  using rnd_dyadic [of pf "numeral n" 1] by simp

lemma rnd_frac_half: "float_rounding pf \<Longrightarrow> rnd pf (1 / 2) = 1 / 2"
  using rnd_dyadic [of pf 1 1] by simp

lemma ceiling_half: "\<lceil>1 / 2 :: real\<rceil> = 1"
  by (simp add: ceiling_eq_iff)

lemma float_rounding_exact: "float_rounding exact"
  by (simp add: float_rounding_def exact_def)

lemma trunc_of_int: "trunc (of_int k) = k"
  by (simp add: trunc_def)

lemma int_of_float64_of_int:
  "\<bar>k\<bar> \<le> 2 ^ 53 \<Longrightarrow> int_of_float64 pf (of_int k) = k"
proof -
  assume "\<bar>k\<bar> \<le> 2 ^ 53"
  then have "MinInt64 \<le> k \<and> k \<le> MaxInt64"
    by (simp add: MinInt64_def MaxInt64_def abs_le_iff)
  then show ?thesis by (simp add: int_of_float64_def trunc_of_int)
qed

lemma int_of_float64_numeral:
  "(numeral n :: int) \<le> 2 ^ 53 \<Longrightarrow> int_of_float64 pf (numeral n) = numeral n"
  using int_of_float64_of_int [of "numeral n" pf] by simp

lemma float64_Millisecond: "float_rounding pf \<Longrightarrow> float64_of_int pf Millisecond = 1000000"
  by (simp add: float64_of_int_def Millisecond_def rnd_numeral)

section \<open>The percentile\<close>

text \<open>The position lies between 0 and \<open>n - 1\<close>: the quotient \<open>p / 100\<close> rounds to a
  value between 0 and 1, and \<open>n - 1\<close> is held exactly.\<close>

lemma position_bounds:
  assumes fr: "float_rounding pf" and n: "0 < n" "int n \<le> 2 ^ 53" and p: "0 \<le> p" "p \<le> 100"
  defines "pos \<equiv> fmul pf (fdiv pf p 100) (float64_of_int pf (int n - 1))"
  shows "0 \<le> pos \<and> pos \<le> of_int (int n - 1)"
proof -
  let ?t = "rnd pf (p / 100)"
  let ?m = "of_int (int n - 1) :: real"
  have "rnd pf 0 \<le> ?t" using fr p by (intro rnd_mono) simp_all
  then have t0: "0 \<le> ?t" using fr by (simp add: rnd_0)
  have "?t \<le> rnd pf 1" using fr p by (intro rnd_mono) simp_all
  then have t1: "?t \<le> 1" using fr by (simp add: rnd_1)
  have m: "rnd pf ?m = ?m" using fr n by (intro rnd_of_int) simp_all
  have m0: "0 \<le> ?m" using n by simp
  have pos: "pos = rnd pf (?t * ?m)"
    using m by (simp add: pos_def fmul_def fdiv_def float64_of_int_def)
  have "0 \<le> ?t * ?m" using t0 m0 by simp
  then have "rnd pf 0 \<le> rnd pf (?t * ?m)" using fr by (intro rnd_mono)
  then have lo: "0 \<le> pos" using fr pos by (simp add: rnd_0)
  have "?t * ?m \<le> 1 * ?m" using t1 m0 by (rule mult_right_mono)
  then have "?t * ?m \<le> ?m" by simp
  then have "rnd pf (?t * ?m) \<le> rnd pf ?m" using fr by (intro rnd_mono)
  then have "pos \<le> ?m" using pos m by simp
  with lo show ?thesis by simp
qed

lemma indices_in_range:
  assumes fr: "float_rounding pf" and n: "0 < n" "int n \<le> 2 ^ 53" and p: "0 \<le> p" "p \<le> 100"
  defines "pos \<equiv> fmul pf (fdiv pf p 100) (float64_of_int pf (int n - 1))"
  shows "int_of_float64 pf (Floor pos) = \<lfloor>pos\<rfloor>" "int_of_float64 pf (Ceil pos) = \<lceil>pos\<rceil>"
    "0 \<le> \<lfloor>pos\<rfloor>" "\<lfloor>pos\<rfloor> \<le> \<lceil>pos\<rceil>" "\<lceil>pos\<rceil> < int n"
proof -
  have b: "0 \<le> pos \<and> pos \<le> of_int (int n - 1)"
    unfolding pos_def using fr n p by (rule position_bounds)
  then show f0: "0 \<le> \<lfloor>pos\<rfloor>" by simp
  show fc: "\<lfloor>pos\<rfloor> \<le> \<lceil>pos\<rceil>" by (rule floor_le_ceiling)
  from b have "pos \<le> of_int (int n - 1)" by simp
  then have "\<lceil>pos\<rceil> \<le> int n - 1" by (rule ceiling_le)
  then show cn: "\<lceil>pos\<rceil> < int n" by simp
  from f0 fc cn n show "int_of_float64 pf (Floor pos) = \<lfloor>pos\<rfloor>"
    unfolding Floor_def by (intro int_of_float64_of_int) linarith
  from f0 fc cn n show "int_of_float64 pf (Ceil pos) = \<lceil>pos\<rceil>"
    unfolding Ceil_def by (intro int_of_float64_of_int) linarith
qed

lemma percentile_refines:
  assumes fr: "float_rounding pf" and ne: "s \<noteq> []" and len: "int (length s) \<le> 2 ^ 53"
  shows "percentile pf s p = Inr (percentile_spec pf s p)"
proof -
  let ?n = "length s"
  have n: "0 < ?n" using ne by simp
  show ?thesis
  proof (cases "p \<le> 0 \<or> 100 \<le> p")
    case True
    then show ?thesis using n
      by (auto simp add: percentile_def percentile_spec_def index_def nat_diff_distrib')
  next
    case False
    then have p: "0 \<le> p" "p \<le> 100" by simp_all
    let ?pos = "fmul pf (fdiv pf p 100) (float64_of_int pf (int ?n - 1))"
    note ix = indices_in_range [OF fr n len p]
    have fn: "\<lfloor>?pos\<rfloor> < int ?n" using ix(4,5) by linarith
    then have lo: "index s \<lfloor>?pos\<rfloor> = Inr (s ! nat \<lfloor>?pos\<rfloor>)"
      using ix(3) by (simp add: index_def)
    have hi: "index s \<lceil>?pos\<rceil> = Inr (s ! nat \<lceil>?pos\<rceil>)"
      using ix(3,4,5) by (simp add: index_def)
    have "\<bar>\<lfloor>?pos\<rfloor>\<bar> \<le> 2 ^ 53" using ix(3) fn len by linarith
    then have fl: "float64_of_int pf \<lfloor>?pos\<rfloor> = of_int \<lfloor>?pos\<rfloor>"
      using fr by (simp add: float64_of_int_def rnd_of_int)
    show ?thesis using False n
      by (simp add: percentile_def percentile_spec_def Let_def ix(1,2) lo hi fl)
  qed
qed

lemmas float_eval = fmul_def fdiv_def fsub_def fadd_def float64_of_int_def Floor_def Ceil_def
  int_of_float64_def trunc_def MinInt64_def MaxInt64_def index_def Let_def
  rnd_numeral rnd_frac_half rnd_half rnd_1 rnd_0 ceiling_half

lemma percentile_example:
  "float_rounding pf \<Longrightarrow> percentile pf [10, 20, 30, 40] 50 = Inr 25"
  by (simp add: percentile_def float_eval)

section \<open>Claims about the percentile\<close>

text \<open>
  Claim C1. On a non-empty list \<open>s\<close> of length \<open>n\<close>, \<^verbatim>\<open>percentile\<close> returns \<open>s[0]\<close>
  when \<open>p \<le> 0\<close>, \<open>s[n-1]\<close> when \<open>p \<ge> 100\<close>, and otherwise interpolates linearly around
  the position \<open>(p / 100) * (n - 1)\<close>, as \<open>percentile_spec\<close> words it: it does not panic,
  and its result is that of the formula. In particular the percentile 50 of
  \<open>[10, 20, 30, 40]\<close> is 25. This holds for every rounding that is monotone and exact on
  the dyadic numbers a \<^verbatim>\<open>float64\<close> holds, and for lists of at most \<open>2 ^ 53\<close> elements;
  the list need not be sorted.
\<close>

theorem percentile_formula:
  assumes "float_rounding pf" and "s \<noteq> []" and "int (length s) \<le> 2 ^ 53"
  shows "percentile pf s p = Inr (percentile_spec pf s p) \<and>
         percentile pf [10, 20, 30, 40] 50 = Inr 25"
proof
  show "percentile pf s p = Inr (percentile_spec pf s p)"
    using assms by (rule percentile_refines)
  show "percentile pf [10, 20, 30, 40] 50 = Inr 25"
    using assms(1) by (rule percentile_example)
qed

theorem percentile_formula_witness:
  "float_rounding exact \<and> [10, 20, 30, 40 :: real] \<noteq> [] \<and>
   int (length [10, 20, 30, 40 :: real]) \<le> 2 ^ 53 \<and>
   percentile exact [10, 20, 30, 40] 50 = Inr (percentile_spec exact [10, 20, 30, 40] 50) \<and>
   percentile_spec exact [10, 20, 30, 40] 50 = 25 \<and>
   percentile exact [10, 20, 30, 40] 0 = Inr 10 \<and>
   percentile exact [10, 20, 30, 40] 100 = Inr 40"
proof -
  have s: "[10, 20, 30, 40 :: real] \<noteq> []" by simp
  have l: "int (length [10, 20, 30, 40 :: real]) \<le> 2 ^ 53" by simp
  have v: "percentile_spec exact [10, 20, 30, 40] 50 = 25"
    by (simp add: percentile_spec_def exact_def fmul_def fdiv_def fsub_def fadd_def
        float64_of_int_def Let_def ceiling_half)
  have e: "percentile exact [10, 20, 30, 40] 0 = Inr 10 \<and> percentile exact [10, 20, 30, 40] 100 = Inr 40"
    by (simp add: percentile_def index_def)
  show ?thesis
    using percentile_formula [OF float_rounding_exact s l, of 50] float_rounding_exact s l v e
    by simp
qed



end
